theory Spec2Isabelle
  imports Main "HOL-Library.Word"
begin

section \<open>The SofaRPC connection pool (pkg/stream/sofarpc/connpool.go)\<close>

text \<open>
  A shallow embedding of \<^verbatim>\<open>connpool.go\<close>. The pool, the one host it serves and the
  \<^verbatim>\<open>activeClient\<close> objects it points to are one record that every operation takes and
  returns. Calls into collaborators that live outside the file (the pool event listener,
  the stream client, the connection, the admission budget) and the accesses to the
  mutex and to the field \<^verbatim>\<open>p.activeClient\<close> are appended, in program order, to a trace.
\<close>

subsection \<open>Types declared outside the file\<close>

text \<open>
  \<^verbatim>\<open>types.ConnectionEvent\<close>: the constants the file and its specification name, and
  \<open>OtherEvent\<close> for any further value of the type.
\<close>

datatype ConnectionEvent =
    LocalClose
  | RemoteClose
  | ConnectTimeout
  | ConnectFailed
  | Connected
  | OnReadTimeout
  | OtherEvent nat

text \<open>
  Modelled from the spec: \<^verbatim>\<open>ConnectionEvent.IsClose\<close> is declared in package
  \<^verbatim>\<open>types\<close>, outside the sources at hand. The specification lists the close events of
  the pool as \<^verbatim>\<open>LocalClose\<close> and \<^verbatim>\<open>RemoteClose\<close>.
\<close>

definition IsClose :: "ConnectionEvent \<Rightarrow> bool" where
  "IsClose event = (event = LocalClose \<or> event = RemoteClose)"

text \<open>\<^verbatim>\<open>types.StreamResetReason\<close>, with \<open>OtherReason\<close> for the values the file does not name.\<close>

datatype StreamResetReason =
    StreamConnectionTermination
  | StreamConnectionFailed
  | StreamLocalReset
  | StreamRemoteReset
  | OtherReason nat

text \<open>\<^verbatim>\<open>types.PoolFailureReason\<close>: the two reasons the pool reports.\<close>

datatype PoolFailureReason = ConnectionFailure | Overflow

text \<open>
  A go-metrics counter holds an \<^verbatim>\<open>int64\<close>; \<^verbatim>\<open>Inc(1)\<close> and \<^verbatim>\<open>Dec(1)\<close> add and subtract
  with wrap-around.
\<close>

type_synonym counter = "64 word"

definition Inc :: "counter \<Rightarrow> counter" where
  "Inc c = c + 1"

definition Dec :: "counter \<Rightarrow> counter" where
  "Dec c = c - 1"

text \<open>
  The counters of \<^verbatim>\<open>types.HostStats\<close> and of \<^verbatim>\<open>types.ClusterStats\<close> that the pool
  updates; both carry the same field names.
\<close>

record stats =
  UpstreamConnectionTotal :: counter
  UpstreamConnectionActive :: counter
  UpstreamConnectionConFail :: counter
  UpstreamConnectionLocalCloseWithActiveRequest :: counter
  UpstreamConnectionRemoteCloseWithActiveRequest :: counter
  UpstreamRequestTotal :: counter
  UpstreamRequestActive :: counter
  UpstreamRequestTimeout :: counter
  UpstreamRequestFailureEject :: counter
  UpstreamRequestLocalReset :: counter
  UpstreamRequestRemoteReset :: counter
  UpstreamRequestPendingOverflow :: counter

text \<open>
  Modelled from the spec: the admission budget
  \<^verbatim>\<open>ClusterInfo().ResourceManager().Requests()\<close> is declared outside the sources at
  hand. The specification describes it as a counter with a capacity ceiling whose
  in-use count \<^verbatim>\<open>Increase\<close> raises by one and \<^verbatim>\<open>Decrease\<close> lowers by one, and
  \<^verbatim>\<open>CanCreate\<close> as its boolean answer.
\<close>

record resource =
  in_use :: int
  capacity :: int

definition CanCreate :: "resource \<Rightarrow> bool" where
  "CanCreate r = (in_use r < capacity r)"

definition Increase :: "resource \<Rightarrow> resource" where
  "Increase r = r\<lparr>in_use := in_use r + 1\<rparr>"

definition Decrease :: "resource \<Rightarrow> resource" where
  "Decrease r = r\<lparr>in_use := in_use r - 1\<rparr>"

subsection \<open>The structs of the file\<close>

text \<open>
  \<^verbatim>\<open>type activeClient struct\<close>. The stream client and the connection data are handles
  of external objects. \<open>keepAlive\<close> holds the sub-protocol byte of the keep-alive
  listener when one was installed. The back reference \<^verbatim>\<open>pool\<close> is left out: the
  record below holds a single pool.
\<close>

record activeClient =
  keepAlive :: "8 word option"
  client :: nat
  connData :: nat
  closeWithActiveReq :: bool
  totalStream :: "64 word"

text \<open>What an operation does to the world around it, in program order.\<close>

datatype action =
    MuxLock
  | MuxUnlock
  | ReadActiveClient
  | WriteActiveClient "nat option"
  | AtomicAddTotalStream nat
  | OnFailure PoolFailureReason "nat option"
  | OnReady nat nat
  | ReqCanCreate
  | ReqIncrease
  | ReqDecrease
  | ClientNewStream nat nat
  | StreamAddEventListener nat nat
  | ClientClose nat
  | HostCreateConnection nat
  | NewStreamClient nat
  | AddConnectionEventListener nat nat
  | SetStreamConnectionEventListener nat nat
  | ConnConnect nat
  | ConnAddKeepAliveListener nat
  | NewSofaRPCKeepAlive nat "8 word" nat nat
  | KeepAliveStart nat
  | SetConnectionStats nat
  | SendKeepAlive

text \<open>
  \<^verbatim>\<open>type connPool struct\<close> together with what it reaches: \<open>activeClient\<close> is the
  pointer field (\<open>None\<close> is \<^verbatim>\<open>nil\<close>), \<open>clients\<close> is the store the pointer points
  into (every non-nil pointer of Go refers to an object, so the store is total),
  \<open>host\<close> names the \<^verbatim>\<open>types.Host\<close> and \<open>HostStats\<close>, \<open>ClusterStats\<close> and
  \<open>Requests\<close> are the state reached through it. \<open>nextClient\<close>, \<open>nextConn\<close> and
  \<open>nextStream\<close> number the objects created so far.
\<close>

record connPool =
  activeClient :: "nat option"
  host :: nat
  clients :: "nat \<Rightarrow> activeClient"
  HostStats :: stats
  ClusterStats :: stats
  Requests :: resource
  nextClient :: nat
  nextConn :: nat
  nextStream :: nat
  trace :: "action list"

subsection \<open>Statements\<close>

definition emit :: "action list \<Rightarrow> connPool \<Rightarrow> connPool" where
  "emit as p = p\<lparr>trace := trace p @ as\<rparr>"

text \<open>\<^verbatim>\<open>p.host.HostStats().F.Inc(1)\<close> and the like: \<open>F\<close> is given by its update function.\<close>

definition onHostStats ::
  "((counter \<Rightarrow> counter) \<Rightarrow> stats \<Rightarrow> stats) \<Rightarrow> (counter \<Rightarrow> counter) \<Rightarrow> connPool \<Rightarrow> connPool" where
  "onHostStats field f p = p\<lparr>HostStats := field f (HostStats p)\<rparr>"

definition onClusterStats ::
  "((counter \<Rightarrow> counter) \<Rightarrow> stats \<Rightarrow> stats) \<Rightarrow> (counter \<Rightarrow> counter) \<Rightarrow> connPool \<Rightarrow> connPool" where
  "onClusterStats field f p = p\<lparr>ClusterStats := field f (ClusterStats p)\<rparr>"

text \<open>A block of statements, run first to last.\<close>

fun block :: "(connPool \<Rightarrow> connPool) list \<Rightarrow> connPool \<Rightarrow> connPool" where
  "block [] p = p"
| "block (stmt # stmts) p = block stmts (stmt p)"

text \<open>An assignment to \<^verbatim>\<open>p.activeClient\<close>.\<close>

definition setActiveClient :: "nat option \<Rightarrow> connPool \<Rightarrow> connPool" where
  "setActiveClient v p = emit [WriteActiveClient v] (p\<lparr>activeClient := v\<rparr>)"

text \<open>\<^verbatim>\<open>atomic.AddUint64(&activeClient.totalStream, 1)\<close>.\<close>

definition addTotalStream :: "nat \<Rightarrow> connPool \<Rightarrow> connPool" where
  "addTotalStream a p =
     emit [AtomicAddTotalStream a]
       (p\<lparr>clients := (clients p)(a := (clients p a)\<lparr>totalStream := totalStream (clients p a) + 1\<rparr>)\<rparr>)"

text \<open>
  \<^verbatim>\<open>streamEncoder := activeClient.client.NewStream(ctx, responseDecoder)\<close>,
  \<^verbatim>\<open>streamEncoder.GetStream().AddEventListener(activeClient)\<close> and
  \<^verbatim>\<open>listener.OnReady(streamEncoder, p.host)\<close>: the stream client hands out the next
  stream.
\<close>

definition openStream :: "nat \<Rightarrow> connPool \<Rightarrow> connPool" where
  "openStream a p =
     (let streamEncoder = nextStream p in
      emit [ClientNewStream (client (clients p a)) streamEncoder,
            StreamAddEventListener streamEncoder a,
            OnReady streamEncoder (host p)]
        (p\<lparr>nextStream := Suc streamEncoder\<rparr>))"

subsection \<open>The operations of the pool\<close>

text \<open>\<^verbatim>\<open>func (p *connPool) Active() bool\<close>.\<close>

definition Active :: "connPool \<Rightarrow> bool \<times> connPool" where
  "Active p = (activeClient p \<noteq> None, emit [MuxLock, ReadActiveClient, MuxUnlock] p)"

text \<open>
  \<^verbatim>\<open>func (p *connPool) NewStream(ctx, responseDecoder, listener)\<close>. The three
  arguments are only handed on; the callbacks on \<^verbatim>\<open>listener\<close> are in the trace.
\<close>

definition NewStream :: "connPool \<Rightarrow> connPool" where
  "NewStream p =
     (let p1 = emit [MuxLock, ReadActiveClient, MuxUnlock] p in
      case activeClient p1 of
        None \<Rightarrow> emit [OnFailure ConnectionFailure None] p1
      | Some a \<Rightarrow>
          (let p2 = emit [ReqCanCreate] p1 in
           if \<not> CanCreate (Requests p2) then
             block [emit [OnFailure Overflow None],
                    onHostStats UpstreamRequestPendingOverflow_update Inc,
                    onClusterStats UpstreamRequestPendingOverflow_update Inc] p2
           else
             block [addTotalStream a,
                    onHostStats UpstreamRequestTotal_update Inc,
                    onHostStats UpstreamRequestActive_update Inc,
                    onClusterStats UpstreamRequestTotal_update Inc,
                    onClusterStats UpstreamRequestActive_update Inc,
                    (\<lambda>q. emit [ReqIncrease] (q\<lparr>Requests := Increase (Requests q)\<rparr>)),
                    openStream a] p2))"

text \<open>
  \<^verbatim>\<open>func (p *connPool) Close()\<close>: the field is read for the test and again for the
  call, with no lock taken.
\<close>

definition Close :: "connPool \<Rightarrow> connPool" where
  "Close p =
     (let p1 = emit [ReadActiveClient] p in
      case activeClient p1 of
        None \<Rightarrow> p1
      | Some a \<Rightarrow> emit [ReadActiveClient, ClientClose (client (clients p1 a))] p1)"

text \<open>\<^verbatim>\<open>func (p *connPool) onConnectionEvent(client *activeClient, event types.ConnectionEvent)\<close>.\<close>

definition onConnectionEvent :: "connPool \<Rightarrow> nat \<Rightarrow> ConnectionEvent \<Rightarrow> connPool" where
  "onConnectionEvent p c event =
     (if IsClose event then
        setActiveClient None
          (if closeWithActiveReq (clients p c) then
             (if event = LocalClose then
                block [onHostStats UpstreamConnectionLocalCloseWithActiveRequest_update Inc,
                       onClusterStats UpstreamConnectionLocalCloseWithActiveRequest_update Inc] p
              else if event = RemoteClose then
                block [onHostStats UpstreamConnectionRemoteCloseWithActiveRequest_update Inc,
                       onClusterStats UpstreamConnectionRemoteCloseWithActiveRequest_update Inc] p
              else p)
           else p)
      else if event = ConnectTimeout then
        block [onHostStats UpstreamRequestTimeout_update Inc,
               onClusterStats UpstreamRequestTimeout_update Inc,
               emit [ClientClose (client (clients p c))],
               setActiveClient None] p
      else if event = ConnectFailed then
        block [onHostStats UpstreamConnectionConFail_update Inc,
               onClusterStats UpstreamConnectionConFail_update Inc,
               setActiveClient None] p
      else p)"

text \<open>\<^verbatim>\<open>func (p *connPool) onStreamDestroy(client *activeClient)\<close>.\<close>

definition onStreamDestroy :: "connPool \<Rightarrow> nat \<Rightarrow> connPool" where
  "onStreamDestroy p c =
     block [onHostStats UpstreamRequestActive_update Dec,
            onClusterStats UpstreamRequestActive_update Dec,
            (\<lambda>q. emit [ReqDecrease] (q\<lparr>Requests := Decrease (Requests q)\<rparr>))] p"

text \<open>\<^verbatim>\<open>func (p *connPool) onStreamReset(client *activeClient, reason types.StreamResetReason)\<close>.\<close>

definition onStreamReset :: "connPool \<Rightarrow> nat \<Rightarrow> StreamResetReason \<Rightarrow> connPool" where
  "onStreamReset p c reason =
     (if reason = StreamConnectionTermination \<or> reason = StreamConnectionFailed then
        block [onHostStats UpstreamRequestFailureEject_update Inc,
               onClusterStats UpstreamRequestFailureEject_update Inc,
               (\<lambda>q. q\<lparr>clients := (clients q)(c := (clients q c)\<lparr>closeWithActiveReq := True\<rparr>)\<rparr>)] p
      else if reason = StreamLocalReset then
        block [onHostStats UpstreamRequestLocalReset_update Inc,
               onClusterStats UpstreamRequestLocalReset_update Inc] p
      else if reason = StreamRemoteReset then
        block [onHostStats UpstreamRequestRemoteReset_update Inc,
               onClusterStats UpstreamRequestRemoteReset_update Inc] p
      else p)"

text \<open>
  \<^verbatim>\<open>func (p *connPool) createStreamClient(context, connData) str.Client\<close>: the client
  made for a connection bears the connection's number.
\<close>

definition createStreamClient :: "nat \<Rightarrow> connPool \<Rightarrow> nat \<times> connPool" where
  "createStreamClient data p = (data, emit [NewStreamClient data] p)"

text \<open>\<^verbatim>\<open>func (l *keepAliveListener) OnEvent(event types.ConnectionEvent)\<close>.\<close>

definition keepAliveListener_OnEvent :: "ConnectionEvent \<Rightarrow> connPool \<Rightarrow> connPool" where
  "keepAliveListener_OnEvent event p = (if event = OnReadTimeout then emit [SendKeepAlive] p else p)"

subsection \<open>Construction\<close>

text \<open>The zero value of \<^verbatim>\<open>activeClient\<close>.\<close>

definition zeroClient :: activeClient where
  "zeroClient = \<lparr>keepAlive = None, client = 0, connData = 0, closeWithActiveReq = False, totalStream = 0\<rparr>"

text \<open>
  \<^verbatim>\<open>func newActiveClient(ctx context.Context, pool *connPool) *activeClient\<close>. Of
  \<^verbatim>\<open>ctx\<close> the function reads the value under \<^verbatim>\<open>types.ContextSubProtocol\<close>, here
  \<open>ctxSubProtocol\<close> (\<open>None\<close> when there is none or it is no byte). \<open>connectOk\<close> says
  whether \<^verbatim>\<open>ac.host.Connection.Connect(true)\<close> returned no error. The result is the
  pointer returned (\<open>None\<close> is \<^verbatim>\<open>nil\<close>).
\<close>

definition newActiveClient :: "8 word option \<Rightarrow> bool \<Rightarrow> connPool \<Rightarrow> nat option \<times> connPool" where
  "newActiveClient ctxSubProtocol connectOk pool =
     (let ac = nextClient pool;
          p1 = pool\<lparr>clients := (clients pool)(ac := zeroClient), nextClient := Suc ac\<rparr>;
          data = nextConn p1;
          p2 = emit [HostCreateConnection data] (p1\<lparr>nextConn := Suc data\<rparr>);
          (codecClient, p3) = createStreamClient data p2;
          p4 = emit [AddConnectionEventListener codecClient ac,
                     SetStreamConnectionEventListener codecClient ac] p3;
          p5 = p4\<lparr>clients := (clients p4)(ac := (clients p4 ac)\<lparr>client := codecClient, connData := data\<rparr>)\<rparr>;
          p6 = emit [ConnConnect data] p5
      in if \<not> connectOk then (None, p6)
         else
           (Some ac,
            block [(\<lambda>q. case ctxSubProtocol of
                          None \<Rightarrow> q
                        | Some proto \<Rightarrow>
                            emit [NewSofaRPCKeepAlive codecClient proto 1 6,
                                  ConnAddKeepAliveListener data,
                                  KeepAliveStart ac]
                              (q\<lparr>clients := (clients q)(ac := (clients q ac)\<lparr>keepAlive := Some proto\<rparr>)\<rparr>)),
                   onHostStats UpstreamConnectionTotal_update Inc,
                   onHostStats UpstreamConnectionActive_update Inc,
                   onClusterStats UpstreamConnectionTotal_update Inc,
                   onClusterStats UpstreamConnectionActive_update Inc,
                   emit [SetConnectionStats codecClient],
                   emit [MuxLock],
                   setActiveClient (Some ac),
                   emit [MuxUnlock]] p6))"

text \<open>
  \<^verbatim>\<open>func (p *connPool) init()\<close>: \<^verbatim>\<open>context.Background()\<close> carries no value, and the
  pointer returned is assigned to the field with no lock taken.
\<close>

definition init :: "bool \<Rightarrow> connPool \<Rightarrow> connPool" where
  "init connectOk p =
     (let (ac, p1) = newActiveClient None connectOk p in setActiveClient ac p1)"

text \<open>
  \<open>newActiveClient\<close> in two parts, so that what other goroutines do in between can be
  written down: \<open>buildActiveClient\<close> is the function up to and including
  \<^verbatim>\<open>codecClient.SetConnectionStats\<close>, that is everything before the client is
  published, and \<open>publishActiveClient\<close> is the locked assignment
  \<^verbatim>\<open>pool.activeClient = ac\<close> that follows. The listeners are registered, and the
  connection is connected, in the first part.
\<close>

definition buildActiveClient :: "8 word option \<Rightarrow> bool \<Rightarrow> connPool \<Rightarrow> nat option \<times> connPool" where
  "buildActiveClient ctxSubProtocol connectOk pool =
     (let ac = nextClient pool;
          p1 = pool\<lparr>clients := (clients pool)(ac := zeroClient), nextClient := Suc ac\<rparr>;
          data = nextConn p1;
          p2 = emit [HostCreateConnection data] (p1\<lparr>nextConn := Suc data\<rparr>);
          (codecClient, p3) = createStreamClient data p2;
          p4 = emit [AddConnectionEventListener codecClient ac,
                     SetStreamConnectionEventListener codecClient ac] p3;
          p5 = p4\<lparr>clients := (clients p4)(ac := (clients p4 ac)\<lparr>client := codecClient, connData := data\<rparr>)\<rparr>;
          p6 = emit [ConnConnect data] p5
      in if \<not> connectOk then (None, p6)
         else
           (Some ac,
            block [(\<lambda>q. case ctxSubProtocol of
                          None \<Rightarrow> q
                        | Some proto \<Rightarrow>
                            emit [NewSofaRPCKeepAlive codecClient proto 1 6,
                                  ConnAddKeepAliveListener data,
                                  KeepAliveStart ac]
                              (q\<lparr>clients := (clients q)(ac := (clients q ac)\<lparr>keepAlive := Some proto\<rparr>)\<rparr>)),
                   onHostStats UpstreamConnectionTotal_update Inc,
                   onHostStats UpstreamConnectionActive_update Inc,
                   onClusterStats UpstreamConnectionTotal_update Inc,
                   onClusterStats UpstreamConnectionActive_update Inc,
                   emit [SetConnectionStats codecClient]] p6))"

definition publishActiveClient :: "nat \<Rightarrow> connPool \<Rightarrow> connPool" where
  "publishActiveClient ac pool =
     block [emit [MuxLock], setActiveClient (Some ac), emit [MuxUnlock]] pool"

text \<open>
  \<^verbatim>\<open>func NewConnPool(host types.Host) types.ConnectionPool\<close>: the pool as it is
  returned, for a host with the given statistics and admission budget;
  \<^verbatim>\<open>go p.init()\<close> runs \<open>init\<close> on it later, once.
\<close>

definition NewConnPool :: "nat \<Rightarrow> stats \<Rightarrow> stats \<Rightarrow> resource \<Rightarrow> connPool" where
  "NewConnPool h hostStats clusterStats requests =
     \<lparr>activeClient = None, host = h, clients = (\<lambda>_. zeroClient),
      HostStats = hostStats, ClusterStats = clusterStats, Requests = requests,
      nextClient = 0, nextConn = 0, nextStream = 0, trace = []\<rparr>"

subsection \<open>The calls a pool receives once it exists\<close>

text \<open>
  The exported methods of the pool and the listener methods of an \<^verbatim>\<open>activeClient\<close>
  (\<^verbatim>\<open>OnEvent\<close>, \<^verbatim>\<open>OnDestroyStream\<close>, \<^verbatim>\<open>OnResetStream\<close>, \<^verbatim>\<open>OnGoAway\<close>), each of
  which hands on to the pool with the client itself as argument.
\<close>

datatype call =
    CallNewStream
  | CallActive
  | CallProtocol
  | CallClose
  | CallOnEvent nat ConnectionEvent
  | CallOnDestroyStream nat
  | CallOnResetStream nat StreamResetReason
  | CallOnGoAway nat

fun step :: "connPool \<Rightarrow> call \<Rightarrow> connPool" where
  "step p CallNewStream = NewStream p"
| "step p CallActive = snd (Active p)"
| "step p CallProtocol = p"
| "step p CallClose = Close p"
| "step p (CallOnEvent ac event) = onConnectionEvent p ac event"
| "step p (CallOnDestroyStream ac) = onStreamDestroy p ac"
| "step p (CallOnResetStream ac reason) = onStreamReset p ac reason"
| "step p (CallOnGoAway ac) = p"

definition run :: "connPool \<Rightarrow> call list \<Rightarrow> connPool" where
  "run p calls = foldl step p calls"

subsection \<open>Pools to run the operations on\<close>

definition zeroStats :: stats where
  "zeroStats =
     \<lparr>UpstreamConnectionTotal = 0, UpstreamConnectionActive = 0, UpstreamConnectionConFail = 0,
      UpstreamConnectionLocalCloseWithActiveRequest = 0,
      UpstreamConnectionRemoteCloseWithActiveRequest = 0,
      UpstreamRequestTotal = 0, UpstreamRequestActive = 0, UpstreamRequestTimeout = 0,
      UpstreamRequestFailureEject = 0, UpstreamRequestLocalReset = 0,
      UpstreamRequestRemoteReset = 0, UpstreamRequestPendingOverflow = 0\<rparr>"

text \<open>A pool as \<^verbatim>\<open>NewConnPool\<close> returns it, for host 7 with an admission budget of \<open>cap\<close>.\<close>

definition freshPool :: "int \<Rightarrow> connPool" where
  "freshPool cap = NewConnPool 7 zeroStats zeroStats \<lparr>in_use = 0, capacity = cap\<rparr>"

text \<open>The same pool after \<open>init\<close> has connected.\<close>

definition activePool :: "int \<Rightarrow> connPool" where
  "activePool cap = init True (freshPool cap)"

text \<open>
  The active pool after one of its streams was reset because the connection
  terminated: the client is flagged as closing with a request in flight.
\<close>

definition flaggedPool :: connPool where
  "flaggedPool = onStreamReset (activePool 2) 0 StreamConnectionTermination"




subsection \<open>Sequences of calls and what they leave in the trace\<close>

text \<open>The actions \<open>f\<close> adds to the trace when it runs on \<open>p\<close>.\<close>

definition performed :: "(connPool \<Rightarrow> connPool) \<Rightarrow> connPool \<Rightarrow> action list" where
  "performed f p = drop (length (trace p)) (trace (f p))"

text \<open>
  A call of \<open>NewStream\<close> succeeds when it ends by handing the new stream to
  \<^verbatim>\<open>listener.OnReady\<close>; \<open>allSucceed n\<close> says so of \<open>n\<close> calls in a row.
\<close>

definition succeeds :: "connPool \<Rightarrow> bool" where
  "succeeds p = (last (trace (NewStream p)) = OnReady (nextStream p) (host p))"

fun allSucceed :: "nat \<Rightarrow> connPool \<Rightarrow> bool" where
  "allSucceed 0 p = True"
| "allSucceed (Suc n) p = (succeeds p \<and> allSucceed n (NewStream p))"

text \<open>
  The lock discipline on a sequence of actions of one thread: every read and every write
  of \<^verbatim>\<open>p.activeClient\<close> stands between a \<^verbatim>\<open>p.mux.Lock()\<close> and the next
  \<^verbatim>\<open>p.mux.Unlock()\<close>. \<open>held\<close> says whether the thread holds the mutex at the start.
\<close>

fun guarded :: "bool \<Rightarrow> action list \<Rightarrow> bool" where
  "guarded held [] = True"
| "guarded held (MuxLock # as) = guarded True as"
| "guarded held (MuxUnlock # as) = guarded False as"
| "guarded held (ReadActiveClient # as) = (held \<and> guarded held as)"
| "guarded held (WriteActiveClient v # as) = (held \<and> guarded held as)"
| "guarded held (a # as) = guarded held as"

section \<open>Properties\<close>

lemmas stmt_defs = emit_def onHostStats_def onClusterStats_def setActiveClient_def
  addTotalStream_def openStream_def

lemmas example_defs = activePool_def freshPool_def NewConnPool_def zeroStats_def zeroClient_def
  init_def newActiveClient_def createStreamClient_def

subsection \<open>Facts shared by the proofs\<close>


lemma trace_NewStream:
  "trace (NewStream p) = trace p @ [MuxLock, ReadActiveClient, MuxUnlock] @
     (case activeClient p of
        None \<Rightarrow> [OnFailure ConnectionFailure None]
      | Some a \<Rightarrow>
          if CanCreate (Requests p) then
            [ReqCanCreate, AtomicAddTotalStream a, ReqIncrease,
             ClientNewStream (client (clients p a)) (nextStream p),
             StreamAddEventListener (nextStream p) a,
             OnReady (nextStream p) (host p)]
          else [ReqCanCreate, OnFailure Overflow None])"
  by (simp add: NewStream_def stmt_defs Let_def split: option.splits)

lemma activeClient_NewStream: "activeClient (NewStream p) = activeClient p"
  by (simp add: NewStream_def stmt_defs Let_def split: option.splits)

subsection \<open>NewStream\<close>

text \<open>
  C1. A call of \<open>NewStream\<close> on a pool whose \<open>activeClient\<close> is set and whose
  admission budget answers \<open>CanCreate\<close> adds one to \<open>totalStream\<close> of the active client
  (a machine addition on 64 bits, made by \<^verbatim>\<open>atomic.AddUint64\<close>), adds one to
  \<open>UpstreamRequestTotal\<close> and to \<open>UpstreamRequestActive\<close> of the host and of the cluster,
  calls \<open>Increase\<close> on the budget once, asks the stream client of the active client for a
  new stream, adds the active client as a listener of that stream, and calls \<open>OnReady\<close>
  with that stream and the host of the pool. The trace lists every call made, in order.
\<close>

theorem NewStream_admitted:
  assumes "activeClient p = Some a" and "CanCreate (Requests p)"
  shows "totalStream (clients (NewStream p) a) = totalStream (clients p a) + 1
       \<and> UpstreamRequestTotal (HostStats (NewStream p)) = UpstreamRequestTotal (HostStats p) + 1
       \<and> UpstreamRequestActive (HostStats (NewStream p)) = UpstreamRequestActive (HostStats p) + 1
       \<and> UpstreamRequestTotal (ClusterStats (NewStream p)) = UpstreamRequestTotal (ClusterStats p) + 1
       \<and> UpstreamRequestActive (ClusterStats (NewStream p)) = UpstreamRequestActive (ClusterStats p) + 1
       \<and> Requests (NewStream p) = Increase (Requests p)
       \<and> trace (NewStream p) = trace p @
            [MuxLock, ReadActiveClient, MuxUnlock, ReqCanCreate, AtomicAddTotalStream a, ReqIncrease,
             ClientNewStream (client (clients p a)) (nextStream p),
             StreamAddEventListener (nextStream p) a,
             OnReady (nextStream p) (host p)]"
  using assms by (simp add: NewStream_def stmt_defs Inc_def Let_def)

theorem NewStream_admitted_witness:
  "activeClient (activePool 2) = Some 0 \<and> CanCreate (Requests (activePool 2))
    \<and> totalStream (clients (NewStream (activePool 2)) 0) = 1
    \<and> UpstreamRequestTotal (HostStats (NewStream (activePool 2))) = 1
    \<and> UpstreamRequestActive (HostStats (NewStream (activePool 2))) = 1
    \<and> UpstreamRequestTotal (ClusterStats (NewStream (activePool 2))) = 1
    \<and> UpstreamRequestActive (ClusterStats (NewStream (activePool 2))) = 1
    \<and> in_use (Requests (NewStream (activePool 2))) = 1
    \<and> trace (NewStream (activePool 2)) = trace (activePool 2) @
          [MuxLock, ReadActiveClient, MuxUnlock, ReqCanCreate, AtomicAddTotalStream 0, ReqIncrease,
           ClientNewStream 0 0, StreamAddEventListener 0 0, OnReady 0 7]"
  using NewStream_admitted [of "activePool 2" 0]
  by (simp add: example_defs stmt_defs Inc_def CanCreate_def Increase_def)

text \<open>
  C2. A call of \<open>NewStream\<close> on a pool whose \<open>activeClient\<close> is \<^verbatim>\<open>nil\<close>, that is one for
  which \<open>Active\<close> answers false, calls \<open>OnFailure\<close> once, with \<open>ConnectionFailure\<close> and
  \<^verbatim>\<open>nil\<close>, and returns. Nothing but the trace differs afterwards: no counter of the host
  or of the cluster, not the admission budget, not the number of streams; and the trace
  holds, after the locked read of the field, that one callback only, so the budget was not
  asked and no stream was requested.
\<close>

theorem NewStream_without_client:
  assumes "activeClient p = None"
  shows "\<not> fst (Active p)
       \<and> NewStream p =
           p\<lparr>trace := trace p @
                [MuxLock, ReadActiveClient, MuxUnlock, OnFailure ConnectionFailure None]\<rparr>"
  using assms by (simp add: NewStream_def Active_def emit_def)

theorem NewStream_without_client_witness:
  "activeClient (freshPool 2) = None
    \<and> \<not> fst (Active (freshPool 2))
    \<and> NewStream (freshPool 2) =
         (freshPool 2)\<lparr>trace := [MuxLock, ReadActiveClient, MuxUnlock,
                                  OnFailure ConnectionFailure None]\<rparr>"
  using NewStream_without_client [of "freshPool 2"]
  by (simp add: freshPool_def NewConnPool_def)

text \<open>
  C3. A call of \<open>NewStream\<close> on a pool whose \<open>activeClient\<close> is set and whose admission
  budget answers \<open>CanCreate\<close> with false calls \<open>OnFailure\<close> once, with \<open>Overflow\<close> and
  \<^verbatim>\<open>nil\<close>, and adds one to \<open>UpstreamRequestPendingOverflow\<close> of the host and of the
  cluster. Nothing else differs but the trace, which holds neither \<open>Increase\<close> nor a
  request for a stream: the budget, \<open>UpstreamRequestActive\<close>, \<open>UpstreamRequestTotal\<close> and
  \<open>totalStream\<close> are as before.
\<close>

theorem NewStream_overflow:
  assumes "activeClient p = Some a" and "\<not> CanCreate (Requests p)"
  shows "NewStream p =
     p\<lparr>HostStats := (HostStats p)\<lparr>UpstreamRequestPendingOverflow :=
                        UpstreamRequestPendingOverflow (HostStats p) + 1\<rparr>,
       ClusterStats := (ClusterStats p)\<lparr>UpstreamRequestPendingOverflow :=
                        UpstreamRequestPendingOverflow (ClusterStats p) + 1\<rparr>,
       trace := trace p @
         [MuxLock, ReadActiveClient, MuxUnlock, ReqCanCreate, OnFailure Overflow None]\<rparr>"
  using assms by (simp add: NewStream_def stmt_defs Inc_def Let_def)

theorem NewStream_overflow_witness:
  "activeClient (activePool 0) = Some 0 \<and> \<not> CanCreate (Requests (activePool 0))
    \<and> NewStream (activePool 0) =
        (activePool 0)\<lparr>HostStats := (HostStats (activePool 0))\<lparr>UpstreamRequestPendingOverflow := 1\<rparr>,
          ClusterStats := (ClusterStats (activePool 0))\<lparr>UpstreamRequestPendingOverflow := 1\<rparr>,
          trace := trace (activePool 0) @
            [MuxLock, ReadActiveClient, MuxUnlock, ReqCanCreate, OnFailure Overflow None]\<rparr>"
  using NewStream_overflow [of "activePool 0" 0]
  by (simp add: example_defs stmt_defs Inc_def CanCreate_def)

subsection \<open>Connection events\<close>

lemma activePool_simps:
  "activeClient (activePool cap) = Some 0"
  "closeWithActiveReq (clients (activePool cap) 0) = False"
  "Requests (activePool cap) = \<lparr>in_use = 0, capacity = cap\<rparr>"
  by (simp_all add: example_defs stmt_defs)

lemma flaggedPool_simps:
  "closeWithActiveReq (clients flaggedPool 0)"
  "UpstreamConnectionRemoteCloseWithActiveRequest (HostStats flaggedPool) = 0"
  "UpstreamConnectionRemoteCloseWithActiveRequest (ClusterStats flaggedPool) = 0"
  by (simp_all add: flaggedPool_def onStreamReset_def example_defs stmt_defs)

lemma run_Nil: "run p [] = p"
  by (simp add: run_def)

lemma run_Cons: "run p (c # cs) = run (step p c) cs"
  by (simp add: run_def)

lemma run_append: "run p (xs @ ys) = run (run p xs) ys"
  by (simp add: run_def)




text \<open>The two parts make up \<open>newActiveClient\<close>, and \<open>init\<close> stores its result once more.\<close>

lemma newActiveClient_split:
  "newActiveClient ctxSubProtocol connectOk pool =
     (case buildActiveClient ctxSubProtocol connectOk pool of
        (None, q) \<Rightarrow> (None, q)
      | (Some ac, q) \<Rightarrow> (Some ac, publishActiveClient ac q))"
  by (simp add: newActiveClient_def buildActiveClient_def publishActiveClient_def
      createStreamClient_def Let_def split: option.splits)

lemma init_split:
  "init connectOk p =
     (case buildActiveClient None connectOk p of
        (None, q) \<Rightarrow> setActiveClient None q
      | (Some ac, q) \<Rightarrow> setActiveClient (Some ac) (publishActiveClient ac q))"
  by (simp add: init_def newActiveClient_split split: prod.splits option.splits)




text \<open>
  C6. What \<open>onConnectionEvent\<close> does on each event of its table. On \<open>LocalClose\<close> with
  \<open>closeWithActiveReq\<close> set on the client it adds one to
  \<open>UpstreamConnectionLocalCloseWithActiveRequest\<close> of host and cluster; on \<open>RemoteClose\<close>
  with the flag set, one to \<open>UpstreamConnectionRemoteCloseWithActiveRequest\<close> of host and
  cluster; on a close event with the flag unset it changes no counter; on
  \<open>ConnectTimeout\<close> it adds one to \<open>UpstreamRequestTimeout\<close> of host and cluster and
  closes the client's connection; on \<open>ConnectFailed\<close> it adds one to
  \<open>UpstreamConnectionConFail\<close> of host and cluster. Each time the field \<open>activeClient\<close>
  is set to \<^verbatim>\<open>nil\<close>, and nothing else changes.
\<close>

theorem onConnectionEvent_table:
  "onConnectionEvent p c LocalClose =
     (if closeWithActiveReq (clients p c) then
        p\<lparr>activeClient := None,
          HostStats := (HostStats p)\<lparr>UpstreamConnectionLocalCloseWithActiveRequest :=
             UpstreamConnectionLocalCloseWithActiveRequest (HostStats p) + 1\<rparr>,
          ClusterStats := (ClusterStats p)\<lparr>UpstreamConnectionLocalCloseWithActiveRequest :=
             UpstreamConnectionLocalCloseWithActiveRequest (ClusterStats p) + 1\<rparr>,
          trace := trace p @ [WriteActiveClient None]\<rparr>
      else p\<lparr>activeClient := None, trace := trace p @ [WriteActiveClient None]\<rparr>)
 \<and> onConnectionEvent p c RemoteClose =
     (if closeWithActiveReq (clients p c) then
        p\<lparr>activeClient := None,
          HostStats := (HostStats p)\<lparr>UpstreamConnectionRemoteCloseWithActiveRequest :=
             UpstreamConnectionRemoteCloseWithActiveRequest (HostStats p) + 1\<rparr>,
          ClusterStats := (ClusterStats p)\<lparr>UpstreamConnectionRemoteCloseWithActiveRequest :=
             UpstreamConnectionRemoteCloseWithActiveRequest (ClusterStats p) + 1\<rparr>,
          trace := trace p @ [WriteActiveClient None]\<rparr>
      else p\<lparr>activeClient := None, trace := trace p @ [WriteActiveClient None]\<rparr>)
 \<and> (IsClose event \<and> \<not> closeWithActiveReq (clients p c) \<longrightarrow>
      onConnectionEvent p c event =
        p\<lparr>activeClient := None, trace := trace p @ [WriteActiveClient None]\<rparr>)
 \<and> onConnectionEvent p c ConnectTimeout =
      p\<lparr>activeClient := None,
        HostStats := (HostStats p)\<lparr>UpstreamRequestTimeout :=
           UpstreamRequestTimeout (HostStats p) + 1\<rparr>,
        ClusterStats := (ClusterStats p)\<lparr>UpstreamRequestTimeout :=
           UpstreamRequestTimeout (ClusterStats p) + 1\<rparr>,
        trace := trace p @ [ClientClose (client (clients p c)), WriteActiveClient None]\<rparr>
 \<and> onConnectionEvent p c ConnectFailed =
      p\<lparr>activeClient := None,
        HostStats := (HostStats p)\<lparr>UpstreamConnectionConFail :=
           UpstreamConnectionConFail (HostStats p) + 1\<rparr>,
        ClusterStats := (ClusterStats p)\<lparr>UpstreamConnectionConFail :=
           UpstreamConnectionConFail (ClusterStats p) + 1\<rparr>,
        trace := trace p @ [WriteActiveClient None]\<rparr>"
  by (simp add: onConnectionEvent_def stmt_defs Inc_def IsClose_def)

theorem onConnectionEvent_table_witness:
  "closeWithActiveReq (clients flaggedPool 0)
    \<and> onConnectionEvent flaggedPool 0 RemoteClose =
        flaggedPool\<lparr>activeClient := None,
          HostStats := (HostStats flaggedPool)\<lparr>UpstreamConnectionRemoteCloseWithActiveRequest := 1\<rparr>,
          ClusterStats := (ClusterStats flaggedPool)\<lparr>UpstreamConnectionRemoteCloseWithActiveRequest := 1\<rparr>,
          trace := trace flaggedPool @ [WriteActiveClient None]\<rparr>
    \<and> IsClose LocalClose
    \<and> \<not> closeWithActiveReq (clients (activePool 2) 0)
    \<and> onConnectionEvent (activePool 2) 0 LocalClose =
        (activePool 2)\<lparr>activeClient := None,
          trace := trace (activePool 2) @ [WriteActiveClient None]\<rparr>"
  using onConnectionEvent_table [of flaggedPool 0 RemoteClose]
    onConnectionEvent_table [of "activePool 2" 0 LocalClose]
  by (simp add: IsClose_def activePool_simps flaggedPool_simps)

text \<open>
  C10. On an event that is no close event and neither \<open>ConnectTimeout\<close> nor
  \<open>ConnectFailed\<close>, such as \<open>Connected\<close> or \<open>OnReadTimeout\<close>, \<open>onConnectionEvent\<close> changes
  nothing: the field \<open>activeClient\<close>, the flag \<open>closeWithActiveReq\<close> and every counter of
  host and cluster are as before, and the trace gains no action, so the connection is not
  closed.
\<close>

theorem onConnectionEvent_other_event:
  assumes "\<not> IsClose event" and "event \<noteq> ConnectTimeout" and "event \<noteq> ConnectFailed"
  shows "onConnectionEvent p c event = p"
  using assms by (simp add: onConnectionEvent_def)

theorem onConnectionEvent_other_event_witness:
  "\<not> IsClose Connected \<and> Connected \<noteq> ConnectTimeout \<and> Connected \<noteq> ConnectFailed
    \<and> onConnectionEvent (activePool 2) 0 Connected = activePool 2
    \<and> \<not> IsClose OnReadTimeout \<and> OnReadTimeout \<noteq> ConnectTimeout \<and> OnReadTimeout \<noteq> ConnectFailed
    \<and> onConnectionEvent flaggedPool 0 OnReadTimeout = flaggedPool"
  using onConnectionEvent_other_event [of Connected "activePool 2" 0]
    onConnectionEvent_other_event [of OnReadTimeout flaggedPool 0]
  by (simp add: IsClose_def)

subsection \<open>Stream events\<close>

text \<open>
  C7. What \<open>onStreamReset\<close> does on each reason of its table. On
  \<open>StreamConnectionTermination\<close> and on \<open>StreamConnectionFailed\<close> it adds one to
  \<open>UpstreamRequestFailureEject\<close> of host and cluster and sets \<open>closeWithActiveReq\<close> of the
  client; on \<open>StreamLocalReset\<close> it adds one to \<open>UpstreamRequestLocalReset\<close> of host and
  cluster; on \<open>StreamRemoteReset\<close>, one to \<open>UpstreamRequestRemoteReset\<close> of host and
  cluster. In the last two cases the flag and all other counters are as before.
\<close>

theorem onStreamReset_table:
  "onStreamReset p c StreamConnectionTermination =
     p\<lparr>clients := (clients p)(c := (clients p c)\<lparr>closeWithActiveReq := True\<rparr>),
       HostStats := (HostStats p)\<lparr>UpstreamRequestFailureEject :=
          UpstreamRequestFailureEject (HostStats p) + 1\<rparr>,
       ClusterStats := (ClusterStats p)\<lparr>UpstreamRequestFailureEject :=
          UpstreamRequestFailureEject (ClusterStats p) + 1\<rparr>\<rparr>
 \<and> onStreamReset p c StreamConnectionFailed =
     p\<lparr>clients := (clients p)(c := (clients p c)\<lparr>closeWithActiveReq := True\<rparr>),
       HostStats := (HostStats p)\<lparr>UpstreamRequestFailureEject :=
          UpstreamRequestFailureEject (HostStats p) + 1\<rparr>,
       ClusterStats := (ClusterStats p)\<lparr>UpstreamRequestFailureEject :=
          UpstreamRequestFailureEject (ClusterStats p) + 1\<rparr>\<rparr>
 \<and> onStreamReset p c StreamLocalReset =
     p\<lparr>HostStats := (HostStats p)\<lparr>UpstreamRequestLocalReset :=
          UpstreamRequestLocalReset (HostStats p) + 1\<rparr>,
       ClusterStats := (ClusterStats p)\<lparr>UpstreamRequestLocalReset :=
          UpstreamRequestLocalReset (ClusterStats p) + 1\<rparr>\<rparr>
 \<and> onStreamReset p c StreamRemoteReset =
     p\<lparr>HostStats := (HostStats p)\<lparr>UpstreamRequestRemoteReset :=
          UpstreamRequestRemoteReset (HostStats p) + 1\<rparr>,
       ClusterStats := (ClusterStats p)\<lparr>UpstreamRequestRemoteReset :=
          UpstreamRequestRemoteReset (ClusterStats p) + 1\<rparr>\<rparr>"
  by (simp add: onStreamReset_def stmt_defs Inc_def)

lemma succeeds_iff: "succeeds p \<longleftrightarrow> activeClient p \<noteq> None \<and> CanCreate (Requests p)"
  by (simp add: succeeds_def trace_NewStream split: option.splits)

lemma NewStream_accounting:
  assumes "succeeds p"
  shows "UpstreamRequestActive (HostStats (NewStream p)) = UpstreamRequestActive (HostStats p) + 1"
    and "UpstreamRequestActive (ClusterStats (NewStream p)) = UpstreamRequestActive (ClusterStats p) + 1"
    and "in_use (Requests (NewStream p)) = in_use (Requests p) + 1"
  using assms
  by (auto simp add: succeeds_iff NewStream_def stmt_defs Inc_def Increase_def Let_def)

lemma onStreamDestroy_eq:
  "onStreamDestroy p c =
     p\<lparr>HostStats := (HostStats p)\<lparr>UpstreamRequestActive :=
          UpstreamRequestActive (HostStats p) - 1\<rparr>,
       ClusterStats := (ClusterStats p)\<lparr>UpstreamRequestActive :=
          UpstreamRequestActive (ClusterStats p) - 1\<rparr>,
       Requests := Decrease (Requests p),
       trace := trace p @ [ReqDecrease]\<rparr>"
  by (simp add: onStreamDestroy_def stmt_defs Dec_def)

lemma newStreams_accounting:
  "allSucceed n p \<Longrightarrow>
     UpstreamRequestActive (HostStats (run p (replicate n CallNewStream))) =
       UpstreamRequestActive (HostStats p) + of_nat n
   \<and> UpstreamRequestActive (ClusterStats (run p (replicate n CallNewStream))) =
       UpstreamRequestActive (ClusterStats p) + of_nat n
   \<and> in_use (Requests (run p (replicate n CallNewStream))) = in_use (Requests p) + int n"
proof (induction n arbitrary: p)
  case 0
  then show ?case by (simp add: run_Nil)
next
  case (Suc n)
  from Suc.prems have s: "succeeds p" and rest: "allSucceed n (NewStream p)"
    by simp_all
  show ?case
    using Suc.IH [OF rest] NewStream_accounting [OF s]
    by (simp add: run_Cons)
qed

lemma destroys_accounting:
  "UpstreamRequestActive (HostStats (run p (map CallOnDestroyStream cs))) =
       UpstreamRequestActive (HostStats p) - of_nat (length cs)
   \<and> UpstreamRequestActive (ClusterStats (run p (map CallOnDestroyStream cs))) =
       UpstreamRequestActive (ClusterStats p) - of_nat (length cs)
   \<and> in_use (Requests (run p (map CallOnDestroyStream cs))) =
       in_use (Requests p) - int (length cs)"
proof (induction cs arbitrary: p)
  case Nil
  then show ?case by (simp add: run_Nil)
next
  case (Cons c cs)
  show ?case
    using Cons.IH [of "onStreamDestroy p c"]
    by (simp add: run_Cons onStreamDestroy_eq Decrease_def)
qed

text \<open>
  C5. \<open>onStreamDestroy\<close> undoes the accounting of a successful \<open>NewStream\<close>: a call
  takes one from \<open>UpstreamRequestActive\<close> of the host and of the cluster and calls
  \<open>Decrease\<close> on the admission budget once, and changes nothing else. So when \<open>N\<close> calls
  of \<open>NewStream\<close> in a row succeed and \<open>N\<close> stream-destroy notifications (for any clients
  \<open>cs\<close>) follow, \<open>UpstreamRequestActive\<close> of host and cluster and the in-use count of the
  budget are what they were before the first call.
\<close>

theorem onStreamDestroy_undoes_NewStream:
  assumes "allSucceed N p" and "length cs = N"
  shows "onStreamDestroy p c =
           p\<lparr>HostStats := (HostStats p)\<lparr>UpstreamRequestActive :=
                UpstreamRequestActive (HostStats p) - 1\<rparr>,
             ClusterStats := (ClusterStats p)\<lparr>UpstreamRequestActive :=
                UpstreamRequestActive (ClusterStats p) - 1\<rparr>,
             Requests := Decrease (Requests p),
             trace := trace p @ [ReqDecrease]\<rparr>
     \<and> UpstreamRequestActive
          (HostStats (run p (replicate N CallNewStream @ map CallOnDestroyStream cs))) =
         UpstreamRequestActive (HostStats p)
     \<and> UpstreamRequestActive
          (ClusterStats (run p (replicate N CallNewStream @ map CallOnDestroyStream cs))) =
         UpstreamRequestActive (ClusterStats p)
     \<and> in_use (Requests (run p (replicate N CallNewStream @ map CallOnDestroyStream cs))) =
         in_use (Requests p)"
  using newStreams_accounting [OF assms(1)]
    destroys_accounting [of "run p (replicate N CallNewStream)" cs] assms(2)
  by (simp add: run_append onStreamDestroy_eq)

theorem onStreamDestroy_undoes_NewStream_witness:
  "allSucceed (Suc (Suc 0)) (activePool 2) \<and> length [0, 0 :: nat] = Suc (Suc 0)
    \<and> UpstreamRequestActive (HostStats (run (activePool 2) [CallNewStream, CallNewStream])) = 2
    \<and> in_use (Requests (run (activePool 2) [CallNewStream, CallNewStream])) = 2
    \<and> UpstreamRequestActive (HostStats (run (activePool 2)
         [CallNewStream, CallNewStream, CallOnDestroyStream 0, CallOnDestroyStream 0])) =
       UpstreamRequestActive (HostStats (activePool 2))
    \<and> UpstreamRequestActive (ClusterStats (run (activePool 2)
         [CallNewStream, CallNewStream, CallOnDestroyStream 0, CallOnDestroyStream 0])) =
       UpstreamRequestActive (ClusterStats (activePool 2))
    \<and> in_use (Requests (run (activePool 2)
         [CallNewStream, CallNewStream, CallOnDestroyStream 0, CallOnDestroyStream 0])) =
       in_use (Requests (activePool 2))"
proof -
  have first: "succeeds (activePool 2)"
    by (simp add: succeeds_iff activePool_simps CanCreate_def)
  have second: "succeeds (NewStream (activePool 2))"
    using NewStream_accounting(3) [OF first]
    by (simp add: succeeds_iff activeClient_NewStream activePool_simps CanCreate_def
        NewStream_def stmt_defs Increase_def Let_def)
  have all: "allSucceed (Suc (Suc 0)) (activePool 2)"
    using first second by simp
  have two: "UpstreamRequestActive (HostStats (run (activePool 2) [CallNewStream, CallNewStream])) = 2"
    "in_use (Requests (run (activePool 2) [CallNewStream, CallNewStream])) = 2"
    using NewStream_accounting [OF first] NewStream_accounting [OF second]
    by (simp_all add: run_Cons run_Nil activePool_simps example_defs stmt_defs Inc_def)
  show ?thesis
    using all two onStreamDestroy_undoes_NewStream [of "Suc (Suc 0)" "activePool 2" "[0, 0]"]
    by simp
qed

subsection \<open>Construction\<close>

text \<open>
  C8. When the connect handshake fails, \<open>newActiveClient\<close> returns \<^verbatim>\<open>nil\<close>. It has
  made the client object, asked the host for a connection, wrapped it in a stream
  client, registered the listeners and tried to connect, and nothing more: the field
  \<open>activeClient\<close>, the counters of host and cluster and the admission budget are as
  before, and the trace holds no write of the field and no keep-alive probe, even when
  the context names a sub-protocol. \<open>init\<close> stores the \<^verbatim>\<open>nil\<close> it gets, so a pool fresh
  from \<open>NewConnPool\<close> has \<open>activeClient\<close> \<^verbatim>\<open>nil\<close> and its counters untouched afterwards.
\<close>

theorem newActiveClient_connect_failed:
  "fst (newActiveClient ctxSubProtocol False p) = None
 \<and> snd (newActiveClient ctxSubProtocol False p) =
      p\<lparr>clients := (clients p)
          (nextClient p := zeroClient\<lparr>client := nextConn p, connData := nextConn p\<rparr>),
        nextClient := Suc (nextClient p),
        nextConn := Suc (nextConn p),
        trace := trace p @
          [HostCreateConnection (nextConn p), NewStreamClient (nextConn p),
           AddConnectionEventListener (nextConn p) (nextClient p),
           SetStreamConnectionEventListener (nextConn p) (nextClient p),
           ConnConnect (nextConn p)]\<rparr>
 \<and> activeClient (init False (NewConnPool h hostStats clusterStats requests)) = None
 \<and> HostStats (init False (NewConnPool h hostStats clusterStats requests)) = hostStats
 \<and> ClusterStats (init False (NewConnPool h hostStats clusterStats requests)) = clusterStats
 \<and> Requests (init False (NewConnPool h hostStats clusterStats requests)) = requests
 \<and> trace (init False (NewConnPool h hostStats clusterStats requests)) =
      [HostCreateConnection 0, NewStreamClient 0, AddConnectionEventListener 0 0,
       SetStreamConnectionEventListener 0 0, ConnConnect 0, WriteActiveClient None]"
  by (simp add: newActiveClient_def createStreamClient_def init_def NewConnPool_def
      stmt_defs Let_def)

subsection \<open>The mutex\<close>

lemma trace_Close:
  "trace (Close p) = trace p @
     (case activeClient p of
        None \<Rightarrow> [ReadActiveClient]
      | Some a \<Rightarrow> [ReadActiveClient, ReadActiveClient, ClientClose (client (clients p a))])"
  by (simp add: Close_def emit_def Let_def split: option.splits)

text \<open>
  C9. The accesses to \<^verbatim>\<open>p.activeClient\<close> that are made with the mutex held, and those
  that are not. \<open>NewStream\<close>, \<open>Active\<close> and \<open>newActiveClient\<close> keep the lock discipline.
  \<open>Close\<close> reads the field, \<open>onConnectionEvent\<close> writes it on each event that clears it,
  and \<open>init\<close> writes it, all without the mutex.
\<close>

theorem activeClient_accessed_without_mutex:
  "guarded False (performed NewStream p)
 \<and> guarded False (performed (\<lambda>q. snd (Active q)) p)
 \<and> guarded False (performed (\<lambda>q. snd (newActiveClient ctxSubProtocol connectOk q)) p)
 \<and> \<not> guarded False (performed Close p)
 \<and> \<not> guarded False (performed (\<lambda>q. onConnectionEvent q c LocalClose) p)
 \<and> \<not> guarded False (performed (\<lambda>q. onConnectionEvent q c RemoteClose) p)
 \<and> \<not> guarded False (performed (\<lambda>q. onConnectionEvent q c ConnectTimeout) p)
 \<and> \<not> guarded False (performed (\<lambda>q. onConnectionEvent q c ConnectFailed) p)
 \<and> \<not> guarded False (performed (init connectOk) p)"
proof -
  have locked: "guarded False (performed NewStream p)"
    "guarded False (performed (\<lambda>q. snd (Active q)) p)"
    by (simp_all add: performed_def trace_NewStream Active_def emit_def split: option.splits)
  have built: "guarded False (performed (\<lambda>q. snd (newActiveClient ctxSubProtocol connectOk q)) p)"
    by (simp add: performed_def newActiveClient_def createStreamClient_def stmt_defs Let_def
        split: option.splits)
  have closed: "\<not> guarded False (performed Close p)"
    by (simp add: performed_def trace_Close split: option.splits)
  have events: "\<not> guarded False (performed (\<lambda>q. onConnectionEvent q c LocalClose) p)"
    "\<not> guarded False (performed (\<lambda>q. onConnectionEvent q c RemoteClose) p)"
    "\<not> guarded False (performed (\<lambda>q. onConnectionEvent q c ConnectTimeout) p)"
    "\<not> guarded False (performed (\<lambda>q. onConnectionEvent q c ConnectFailed) p)"
    by (simp_all add: performed_def onConnectionEvent_def IsClose_def stmt_defs)
  have started: "\<not> guarded False (performed (init connectOk) p)"
    by (simp add: performed_def init_def newActiveClient_def createStreamClient_def stmt_defs
        Let_def split: option.splits)
  from locked built closed events started show ?thesis by simp
qed

end
